theory Spec2Isabelle
  imports Complex_Main
begin

section \<open>Liquid Gold: the wallet ledger of \<^verbatim>\<open>app.py\<close>\<close>

text \<open>
  The request handlers of \<^verbatim>\<open>app.py\<close> are modelled as functions from the database
  state and the request's arguments to either an error (the handler's early
  \<^verbatim>\<open>return jsonify({'error': ...})\<close>, taken before any row is touched) or the
  committed database state.

  Conventions of the model.
  \<^item> The tables are lists of rows in insertion order. Only the columns that some handler
    reads or writes are kept; \<^verbatim>\<open>created_at\<close> columns, the \<^verbatim>\<open>budget_categories\<close> and
    \<^verbatim>\<open>activity_log\<close> tables (owned rows that no handler below reads) and the rendered
    message text of a notification are left out.
  \<^item> \<^verbatim>\<open>db.Float\<close> columns and \<^verbatim>\<open>float(...)\<close> values are the real numbers that the
    doubles denote. The fee of a transfer is computed as the code computes it, on doubles:
    the product is rounded to a double and \<^verbatim>\<open>round(., 2)\<close> rounds that double. The
    additions and subtractions on balances and totals are exact: their rounding error,
    infinities and NaN are outside the model.
  \<^item> A Python \<^verbatim>\<open>str\<close> is modelled by its UTF-8 bytes.
  \<^item> What the code draws from the environment is an argument of the model: the random
    transaction reference, the generated account number, today's date (a day number) and
    the current time.
  \<^item> A request field read with \<^verbatim>\<open>float(data.get('amount', 0))\<close> is a \<open>real option\<close>:
    \<open>None\<close> stands for the \<^verbatim>\<open>TypeError\<close>/\<^verbatim>\<open>ValueError\<close> branch of the handler.
\<close>

subsection \<open>Tables\<close>

record user =
  u_id :: nat
  username :: string
  email :: string
  balance :: real
  savings_balance :: real
  account_number :: string
  bio :: string
  phone :: string
  tier :: string
  xp :: int
  streak :: "int option"
  last_login :: "int option"
  total_sent :: real
  total_received :: real
  total_txn_count :: int

record transaction =
  t_sender_id :: "nat option"
  t_receiver_id :: "nat option"
  t_amount :: real
  t_description :: string
  t_type :: string
  t_category :: string
  t_reference :: string
  t_fee :: real

text \<open>The title of a notification, without its emoji; the streak title carries the streak.\<close>

datatype notice =
  Welcome | DepositSuccessful | WithdrawalInitiated | MoneyReceived | TransferSuccessful
  | GoalCreated | GoalAchieved | SplitBillAdded | SplitPayment | DayStreak int

record notification =
  n_user_id :: nat
  n_title :: notice
  n_type :: string
  n_is_read :: bool

record savings_goal =
  g_id :: nat
  g_user_id :: nat
  g_name :: string
  g_target :: real
  g_current :: real
  g_emoji :: string
  g_deadline :: string

record contact =
  c_id :: nat
  c_user_id :: nat
  c_contact_id :: nat
  c_nickname :: string

record scheduled_payment =
  sp_id :: nat
  sp_sender_id :: nat
  sp_receiver_id :: nat
  sp_amount :: real
  sp_description :: string
  sp_frequency :: string
  sp_next_date :: string
  sp_active :: bool

record split_bill =
  b_id :: nat
  b_creator_id :: nat
  b_title :: string
  b_total_amount :: real
  b_description :: string

record split_bill_member =
  m_bill_id :: nat
  m_user_id :: nat
  m_amount_owed :: real
  m_paid :: bool
  m_paid_at :: "int option"

record db =
  users :: "user list"
  transactions :: "transaction list"
  notifications :: "notification list"
  savings_goals :: "savings_goal list"
  contacts :: "contact list"
  scheduled_payments :: "scheduled_payment list"
  split_bills :: "split_bill list"
  split_bill_members :: "split_bill_member list"

text \<open>
  The error responses. Each constructor is one error message of the source;
  \<open>Unauthorized\<close> is \<^verbatim>\<open>@login_required\<close> turning an anonymous request away, and
  \<open>ServerError\<close> is an uncaught \<^verbatim>\<open>AttributeError\<close> (the session is never
  committed).
\<close>

datatype error =
  Unauthorized
  | InvalidAmount           \<comment> \<open>'Invalid amount', 'Invalid target'\<close>
  | DepositRange            \<comment> \<open>'Amount must be between 1 and 1,00,000'\<close>
  | NotPositive             \<comment> \<open>'Amount must be positive'\<close>
  | InsufficientFunds       \<comment> \<open>'Insufficient balance ...'\<close>
  | LimitExceeded           \<comment> \<open>'Single transfer limit is 50,000'\<close>
  | RecipientRequired       \<comment> \<open>'Recipient email or account number required'\<close>
  | RecipientNotFound       \<comment> \<open>'No user found with that email or account number', 'Recipient not found'\<close>
  | SelfTransfer            \<comment> \<open>'Cannot transfer to yourself'\<close>
  | UserNotFound            \<comment> \<open>'User not found'\<close>
  | CannotAddYourself       \<comment> \<open>'Cannot add yourself'\<close>
  | NameAndTargetRequired   \<comment> \<open>'Name and target amount required'\<close>
  | GoalNotFound            \<comment> \<open>'Goal not found'\<close>
  | InsufficientOrInvalid   \<comment> \<open>'Insufficient balance or invalid amount'\<close>
  | InsufficientSavings     \<comment> \<open>'Insufficient savings'\<close>
  | NotFound                \<comment> \<open>'Not found'\<close>
  | IdentifierRequired      \<comment> \<open>'Identifier required'\<close>
  | AlreadyInContacts       \<comment> \<open>'Already in contacts'\<close>
  | AllFieldsRequired       \<comment> \<open>'All fields required'\<close>
  | SplitFieldsRequired     \<comment> \<open>'Title, amount and members required'\<close>
  | NothingToPay            \<comment> \<open>'Nothing to pay or already paid'\<close>
  | UsernameRequired        \<comment> \<open>'Username required'\<close>
  | ServerError

subsection \<open>Helpers\<close>

text \<open>\<^verbatim>\<open>db.session.get(User, uid)\<close> and the lookup by e-mail or account number.\<close>

definition get_user :: "db \<Rightarrow> nat \<Rightarrow> user option" where
  "get_user s uid = find (\<lambda>u. u_id u = uid) (users s)"

definition lookup_user :: "db \<Rightarrow> string \<Rightarrow> user option" where
  "lookup_user s ident = find (\<lambda>u. email u = ident \<or> account_number u = ident) (users s)"

text \<open>An attribute assignment on the user object with primary key \<open>uid\<close>.\<close>

definition upd_user :: "nat \<Rightarrow> (user \<Rightarrow> user) \<Rightarrow> db \<Rightarrow> db" where
  "upd_user uid f s = s\<lparr>users := map (\<lambda>u. if u_id u = uid then f u else u) (users s)\<rparr>"

text \<open>
  A new row's primary key: SQLite gives an \<^verbatim>\<open>INTEGER PRIMARY KEY\<close> column one more
  than the largest key in the table, and 1 in an empty table.
\<close>

definition next_id :: "nat list \<Rightarrow> nat" where
  "next_id ks = foldr max ks 0 + 1"

definition add_transaction :: "transaction \<Rightarrow> db \<Rightarrow> db" where
  "add_transaction t s = s\<lparr>transactions := transactions s @ [t]\<rparr>"

definition add_notification :: "nat \<Rightarrow> notice \<Rightarrow> string \<Rightarrow> db \<Rightarrow> db" where
  "add_notification uid title ntype s =
     s\<lparr>notifications := notifications s @
        [\<lparr>n_user_id = uid, n_title = title, n_type = ntype, n_is_read = False\<rparr>]\<rparr>"

text \<open>
  \<^verbatim>\<open>str.strip()\<close> removes the white space at both ends. The white space characters of
  Python are U+0009 to U+000D, U+001C to U+0020, U+0085, U+00A0, U+1680, U+2000 to U+200A,
  U+2028, U+2029, U+202F, U+205F and U+3000; here each is its UTF-8 encoding.
\<close>

definition whitespace :: "string list" where
  "whitespace =
     [[CHR 0x09], [CHR 0x0A], [CHR 0x0B], [CHR 0x0C], [CHR 0x0D],
      [CHR 0x1C], [CHR 0x1D], [CHR 0x1E], [CHR 0x1F], [CHR 0x20],
      [CHR 0xC2, CHR 0x85], [CHR 0xC2, CHR 0xA0], [CHR 0xE1, CHR 0x9A, CHR 0x80],
      [CHR 0xE2, CHR 0x80, CHR 0x80], [CHR 0xE2, CHR 0x80, CHR 0x81],
      [CHR 0xE2, CHR 0x80, CHR 0x82], [CHR 0xE2, CHR 0x80, CHR 0x83],
      [CHR 0xE2, CHR 0x80, CHR 0x84], [CHR 0xE2, CHR 0x80, CHR 0x85],
      [CHR 0xE2, CHR 0x80, CHR 0x86], [CHR 0xE2, CHR 0x80, CHR 0x87],
      [CHR 0xE2, CHR 0x80, CHR 0x88], [CHR 0xE2, CHR 0x80, CHR 0x89],
      [CHR 0xE2, CHR 0x80, CHR 0x8A], [CHR 0xE2, CHR 0x80, CHR 0xA8],
      [CHR 0xE2, CHR 0x80, CHR 0xA9], [CHR 0xE2, CHR 0x80, CHR 0xAF],
      [CHR 0xE2, CHR 0x81, CHR 0x9F], [CHR 0xE3, CHR 0x80, CHR 0x80]]"

definition starts_with :: "string \<Rightarrow> string \<Rightarrow> bool" where
  "starts_with cs w = (w \<noteq> [] \<and> take (length w) cs = w)"

text \<open>The loop that drops the leading characters found in \<open>ws\<close>.\<close>

function strip_left :: "string list \<Rightarrow> string \<Rightarrow> string" where
  "strip_left ws cs =
     (case find (starts_with cs) ws of
        None \<Rightarrow> cs
      | Some w \<Rightarrow> strip_left ws (drop (length w) cs))"
  by pat_completeness auto
termination
proof (relation "measure (\<lambda>(ws, cs). length cs)")
  show "wf (measure (\<lambda>(ws, cs). length cs))" by simp
next
  fix ws :: "string list" and cs w :: string
  assume "find (starts_with cs) ws = Some w"
  then have "starts_with cs w" by (auto simp: find_Some_iff)
  then have t: "take (length w) cs = w" and n: "w \<noteq> []"
    by (auto simp: starts_with_def)
  have "length w = min (length w) (length cs)"
    using arg_cong [OF t, of length] by simp
  then have "length w \<le> length cs" by linarith
  with n show "((ws, drop (length w) cs), (ws, cs)) \<in> measure (\<lambda>(ws, cs). length cs)"
    by (cases w) auto
qed

declare strip_left.simps [simp del]

text \<open>
  At the end of the text the encodings are matched backwards; UTF-8 is self-synchronising,
  so the bytes matched are a whole character.
\<close>

definition strip :: "string \<Rightarrow> string" where
  "strip cs = rev (strip_left (map rev whitespace) (rev (strip_left whitespace cs)))"

text \<open>
  \<^verbatim>\<open>round(x, 2)\<close> of a double \<open>x\<close>: Python rounds the exact value of \<open>x\<close> to the
  nearest multiple of 0.01, a tie to the even one (\<open>round2\<close>), and returns the double
  nearest to that decimal.
\<close>

definition round_half_even :: "real \<Rightarrow> int" where
  "round_half_even y =
     (let f = \<lfloor>y\<rfloor>; d = y - of_int f
      in if d < 1 / 2 then f else if 1 / 2 < d then f + 1
         else if even f then f else f + 1)"

definition round2 :: "real \<Rightarrow> real" where
  "round2 x = of_int (round_half_even (x * 100)) / 100"

text \<open>
  The double nearest to a real, ties to the even significand: with
  \<open>2 ^ e \<le> \<bar>x\<bar> < 2 ^ (e + 1)\<close> the doubles around \<open>x\<close> are the multiples of
  \<open>2 ^ (e - 52)\<close>, and of \<open>2 ^ - 1074\<close> below the normal range. \<open>binade\<close> finds
  \<open>e\<close> by halving or doubling, at most as often as its first argument says, which is
  more than the range of the exponent of a double. Overflow to infinity is outside the
  model.
\<close>

fun binade :: "nat \<Rightarrow> real \<Rightarrow> int \<Rightarrow> int" where
  "binade n y e =
     (if n = 0 then e
      else if 2 \<le> y then binade (n - 1) (y / 2) (e + 1)
      else if y < 1 then binade (n - 1) (y * 2) (e - 1)
      else e)"

declare binade.simps [simp del]

definition pow2 :: "int \<Rightarrow> real" where
  "pow2 k = (if 0 \<le> k then 2 ^ nat k else 1 / 2 ^ nat (- k))"

definition fl :: "real \<Rightarrow> real" where
  "fl x =
     (if x = 0 then 0
      else let e = max (binade 2200 \<bar>x\<bar> 0) (- 1022); q = e - 52
           in of_int (round_half_even (x / pow2 q)) * pow2 q)"

subsection \<open>\<^verbatim>\<open>User.award_xp\<close>\<close>

definition tiers :: "(string \<times> int) list" where
  "tiers = [(''diamond'', 5000), (''platinum'', 2000), (''gold'', 800), (''silver'', 200)]"

text \<open>The \<^verbatim>\<open>for\<close> loop with its \<^verbatim>\<open>break\<close>; the third argument is the tier set before it.\<close>

fun first_tier :: "(string \<times> int) list \<Rightarrow> int \<Rightarrow> string \<Rightarrow> string" where
  "first_tier [] x t = t"
| "first_tier ((name, threshold) # rest) x t =
     (if x \<ge> threshold then name else first_tier rest x t)"

definition award_xp :: "int \<Rightarrow> user \<Rightarrow> user" where
  "award_xp points u =
     (let u1 = u\<lparr>xp := xp u + points\<rparr>;
          u2 = u1\<lparr>tier := ''bronze''\<rparr>
      in u2\<lparr>tier := first_tier tiers (xp u2) (tier u2)\<rparr>)"

subsection \<open>Deposit, withdrawal, transfer\<close>

text \<open>The body of \<^verbatim>\<open>api_deposit\<close> after its checks.\<close>

definition deposit_commit :: "db \<Rightarrow> nat \<Rightarrow> real \<Rightarrow> string \<Rightarrow> string \<Rightarrow> db" where
  "deposit_commit s cu a method ref =
     (let s1 = upd_user cu (\<lambda>u. u\<lparr>balance := balance u + a\<rparr>) s;
          s2 = upd_user cu (\<lambda>u. u\<lparr>total_received := total_received u + a\<rparr>) s1;
          s3 = add_transaction
                 \<lparr>t_sender_id = None, t_receiver_id = Some cu, t_amount = a,
                  t_description = ''Deposit via '' @ method, t_type = ''deposit'',
                  t_category = ''other'', t_reference = ref, t_fee = 0\<rparr> s2;
          s4 = upd_user cu (award_xp 5) s3
      in add_notification cu DepositSuccessful ''success'' s4)"

definition api_deposit :: "db \<Rightarrow> nat \<Rightarrow> real option \<Rightarrow> string \<Rightarrow> string \<Rightarrow> error + db" where
  "api_deposit s cu amount method ref =
     (case get_user s cu of None \<Rightarrow> Inl Unauthorized | Some _ \<Rightarrow>
      (case amount of None \<Rightarrow> Inl InvalidAmount | Some a \<Rightarrow>
      if a \<le> 0 \<or> a > 100000 then Inl DepositRange
      else Inr (deposit_commit s cu a method ref)))"

text \<open>The body of \<^verbatim>\<open>api_withdraw\<close> after its checks.\<close>

definition withdraw_commit :: "db \<Rightarrow> nat \<Rightarrow> real \<Rightarrow> string \<Rightarrow> db" where
  "withdraw_commit s cu a ref =
     (let s1 = upd_user cu (\<lambda>u. u\<lparr>balance := balance u - a\<rparr>) s;
          s2 = upd_user cu (\<lambda>u. u\<lparr>total_sent := total_sent u + a\<rparr>) s1;
          s3 = add_transaction
                 \<lparr>t_sender_id = Some cu, t_receiver_id = None, t_amount = a,
                  t_description = ''Withdrawal to bank'', t_type = ''withdrawal'',
                  t_category = ''other'', t_reference = ref, t_fee = 0\<rparr> s2
      in add_notification cu WithdrawalInitiated ''info'' s3)"

definition api_withdraw :: "db \<Rightarrow> nat \<Rightarrow> real option \<Rightarrow> string \<Rightarrow> error + db" where
  "api_withdraw s cu amount ref =
     (case get_user s cu of None \<Rightarrow> Inl Unauthorized | Some current_user \<Rightarrow>
      (case amount of None \<Rightarrow> Inl InvalidAmount | Some a \<Rightarrow>
      if a \<le> 0 then Inl NotPositive
      else if balance current_user < a then Inl InsufficientFunds
      else Inr (withdraw_commit s cu a ref)))"

text \<open>
  The fee of a transfer, \<^verbatim>\<open>round(amount * 0.001, 2) if amount > 1000 else 0.0\<close>, for
  the double \<open>a\<close> that \<^verbatim>\<open>float()\<close> gave: the literal is the double nearest to 0.001, the
  product is rounded to a double, and that double is rounded to two decimals.
\<close>

definition transfer_fee :: "real \<Rightarrow> real" where
  "transfer_fee a = (if a > 1000 then fl (round2 (fl (a * fl 0.001))) else 0.0)"

text \<open>The auto-saved contact: added unless the pair is there already.\<close>

definition save_contact :: "nat \<Rightarrow> nat \<Rightarrow> string \<Rightarrow> db \<Rightarrow> db" where
  "save_contact owner other nick s =
     s\<lparr>contacts := contacts s @
        [\<lparr>c_id = next_id (map c_id (contacts s)), c_user_id = owner, c_contact_id = other,
          c_nickname = nick\<rparr>]\<rparr>"

text \<open>
  The body of \<^verbatim>\<open>api_transfer\<close> after its checks: the two accounts, the ledger entry, the
  experience, the two notifications and the contact.
\<close>

definition transfer_commit ::
  "db \<Rightarrow> nat \<Rightarrow> user \<Rightarrow> real \<Rightarrow> real \<Rightarrow> string \<Rightarrow> string \<Rightarrow> string \<Rightarrow> db" where
  "transfer_commit s cu receiver a fee description category ref =
     (let total_deduct = a + fee;
          rid = u_id receiver;
          s1 = upd_user cu (\<lambda>u. u\<lparr>balance := balance u - total_deduct\<rparr>) s;
          s2 = upd_user cu (\<lambda>u. u\<lparr>total_sent := total_sent u + a\<rparr>) s1;
          s3 = upd_user cu (\<lambda>u. u\<lparr>total_txn_count := total_txn_count u + 1\<rparr>) s2;
          s4 = upd_user rid (\<lambda>u. u\<lparr>balance := balance u + a\<rparr>) s3;
          s5 = upd_user rid (\<lambda>u. u\<lparr>total_received := total_received u + a\<rparr>) s4;
          s6 = upd_user rid (\<lambda>u. u\<lparr>total_txn_count := total_txn_count u + 1\<rparr>) s5;
          s7 = add_transaction
                 \<lparr>t_sender_id = Some cu, t_receiver_id = Some rid, t_amount = a,
                  t_description =
                    (if description = [] then ''Transfer to '' @ username receiver
                     else description),
                  t_type = ''transfer'', t_category = category, t_reference = ref,
                  t_fee = fee\<rparr> s6;
          s8 = upd_user cu (award_xp 15) s7;
          s9 = add_notification rid MoneyReceived ''success'' s8;
          s10 = add_notification cu TransferSuccessful ''success'' s9
      in if (\<exists>c \<in> set (contacts s10). c_user_id c = cu \<and> c_contact_id c = rid)
         then s10 else save_contact cu rid [] s10)"

definition api_transfer ::
  "db \<Rightarrow> nat \<Rightarrow> real option \<Rightarrow> string \<Rightarrow> string \<Rightarrow> string \<Rightarrow> string \<Rightarrow> error + db" where
  "api_transfer s cu amount identifier0 description0 category0 ref =
     (case get_user s cu of None \<Rightarrow> Inl Unauthorized | Some current_user \<Rightarrow>
      (case amount of None \<Rightarrow> Inl InvalidAmount | Some a \<Rightarrow>
      let identifier = strip identifier0;
          description = strip description0;
          category = strip category0
      in
      if a \<le> 0 then Inl NotPositive
      else if a > 50000 then Inl LimitExceeded
      else if identifier = [] then Inl RecipientRequired
      else
        (case lookup_user s identifier of None \<Rightarrow> Inl RecipientNotFound | Some receiver \<Rightarrow>
        if u_id receiver = cu then Inl SelfTransfer
        else
          let fee = transfer_fee a;
              total_deduct = a + fee
          in
          if balance current_user < total_deduct then Inl InsufficientFunds
          else Inr (transfer_commit s cu receiver a fee description category ref))))"

subsection \<open>Savings goals\<close>

definition get_goal :: "db \<Rightarrow> nat \<Rightarrow> nat \<Rightarrow> savings_goal option" where
  "get_goal s gid cu = find (\<lambda>g. g_id g = gid \<and> g_user_id g = cu) (savings_goals s)"

definition upd_goal :: "nat \<Rightarrow> (savings_goal \<Rightarrow> savings_goal) \<Rightarrow> db \<Rightarrow> db" where
  "upd_goal gid f s =
     s\<lparr>savings_goals := map (\<lambda>g. if g_id g = gid then f g else g) (savings_goals s)\<rparr>"

definition api_savings_create ::
  "db \<Rightarrow> nat \<Rightarrow> string \<Rightarrow> real option \<Rightarrow> string \<Rightarrow> string \<Rightarrow> error + db" where
  "api_savings_create s cu name0 target emoji deadline =
     (case get_user s cu of None \<Rightarrow> Inl Unauthorized | Some _ \<Rightarrow>
      let name = strip name0 in
      (case target of None \<Rightarrow> Inl InvalidAmount | Some tg \<Rightarrow>
      if name = [] \<or> tg \<le> 0 then Inl NameAndTargetRequired
      else
        let g = \<lparr>g_id = next_id (map g_id (savings_goals s)), g_user_id = cu, g_name = name,
                 g_target = tg, g_current = 0.0, g_emoji = emoji, g_deadline = deadline\<rparr>;
            s1 = s\<lparr>savings_goals := savings_goals s @ [g]\<rparr>;
            s2 = upd_user cu (award_xp 20) s1;
            s3 = add_notification cu GoalCreated ''info'' s2
        in Inr s3))"

text \<open>The body of \<^verbatim>\<open>api_savings_deposit\<close> after its checks, for the goal row found.\<close>

definition savings_deposit_commit :: "db \<Rightarrow> nat \<Rightarrow> savings_goal \<Rightarrow> real \<Rightarrow> string \<Rightarrow> db" where
  "savings_deposit_commit s cu g a ref =
     (let s1 = upd_user cu (\<lambda>u. u\<lparr>balance := balance u - a\<rparr>) s;
          s2 = upd_user cu (\<lambda>u. u\<lparr>savings_balance := savings_balance u + a\<rparr>) s1;
          s3 = upd_goal (g_id g) (\<lambda>h. h\<lparr>g_current := g_current h + a\<rparr>) s2;
          s4 = add_transaction
                 \<lparr>t_sender_id = Some cu, t_receiver_id = None, t_amount = a,
                  t_description = ''Savings: '' @ g_name g, t_type = ''savings'',
                  t_category = ''other'', t_reference = ref, t_fee = 0\<rparr> s3;
          s5 = upd_user cu (award_xp 10) s4
      in if g_current g + a \<ge> g_target g
         then upd_user cu (award_xp 100) (add_notification cu GoalAchieved ''success'' s5)
         else s5)"

definition api_savings_deposit :: "db \<Rightarrow> nat \<Rightarrow> nat \<Rightarrow> real option \<Rightarrow> string \<Rightarrow> error + db" where
  "api_savings_deposit s cu goal_id amount ref =
     (case get_user s cu of None \<Rightarrow> Inl Unauthorized | Some current_user \<Rightarrow>
      (case amount of None \<Rightarrow> Inl InvalidAmount | Some a \<Rightarrow>
      (case get_goal s goal_id cu of None \<Rightarrow> Inl GoalNotFound | Some g \<Rightarrow>
      if a \<le> 0 \<or> balance current_user < a then Inl InsufficientOrInvalid
      else Inr (savings_deposit_commit s cu g a ref))))"

text \<open>The body of \<^verbatim>\<open>api_savings_withdraw\<close> after its check.\<close>

definition savings_withdraw_commit :: "db \<Rightarrow> nat \<Rightarrow> savings_goal \<Rightarrow> real \<Rightarrow> db" where
  "savings_withdraw_commit s cu g a =
     (let s1 = upd_user cu (\<lambda>u. u\<lparr>balance := balance u + a\<rparr>) s;
          s2 = upd_user cu (\<lambda>u. u\<lparr>savings_balance := savings_balance u - a\<rparr>) s1
      in upd_goal (g_id g) (\<lambda>h. h\<lparr>g_current := g_current h - a\<rparr>) s2)"

definition api_savings_withdraw :: "db \<Rightarrow> nat \<Rightarrow> nat \<Rightarrow> real option \<Rightarrow> error + db" where
  "api_savings_withdraw s cu goal_id amount =
     (case get_user s cu of None \<Rightarrow> Inl Unauthorized | Some _ \<Rightarrow>
      (case amount of None \<Rightarrow> Inl InvalidAmount | Some a \<Rightarrow>
      (case get_goal s goal_id cu of None \<Rightarrow> Inl InsufficientSavings | Some g \<Rightarrow>
      if g_current g < a then Inl InsufficientSavings
      else Inr (savings_withdraw_commit s cu g a))))"

definition api_savings_delete :: "db \<Rightarrow> nat \<Rightarrow> nat \<Rightarrow> error + db" where
  "api_savings_delete s cu goal_id =
     (case get_user s cu of None \<Rightarrow> Inl Unauthorized | Some _ \<Rightarrow>
      (case get_goal s goal_id cu of None \<Rightarrow> Inl NotFound | Some g \<Rightarrow>
      let s1 = (if g_current g > 0
                then upd_user cu (\<lambda>u. u\<lparr>savings_balance := savings_balance u - g_current g\<rparr>)
                       (upd_user cu (\<lambda>u. u\<lparr>balance := balance u + g_current g\<rparr>) s)
                else s);
          s2 = s1\<lparr>savings_goals := filter (\<lambda>h. g_id h \<noteq> goal_id) (savings_goals s1)\<rparr>
      in Inr s2))"

subsection \<open>Notifications, contacts, scheduled payments\<close>

definition api_notif_read :: "db \<Rightarrow> nat \<Rightarrow> error + db" where
  "api_notif_read s cu =
     (case get_user s cu of None \<Rightarrow> Inl Unauthorized | Some _ \<Rightarrow>
      Inr (s\<lparr>notifications :=
               map (\<lambda>n. if n_user_id n = cu \<and> \<not> n_is_read n then n\<lparr>n_is_read := True\<rparr> else n)
                 (notifications s)\<rparr>))"

definition api_contact_add :: "db \<Rightarrow> nat \<Rightarrow> string \<Rightarrow> string \<Rightarrow> error + db" where
  "api_contact_add s cu identifier0 nickname0 =
     (case get_user s cu of None \<Rightarrow> Inl Unauthorized | Some _ \<Rightarrow>
      let identifier = strip identifier0; nickname = strip nickname0 in
      if identifier = [] then Inl IdentifierRequired
      else
        (case lookup_user s identifier of None \<Rightarrow> Inl UserNotFound | Some u \<Rightarrow>
        if u_id u = cu then Inl CannotAddYourself
        else if (\<exists>c \<in> set (contacts s). c_user_id c = cu \<and> c_contact_id c = u_id u)
        then Inl AlreadyInContacts
        else Inr (save_contact cu (u_id u) nickname s)))"

definition api_contact_delete :: "db \<Rightarrow> nat \<Rightarrow> nat \<Rightarrow> error + db" where
  "api_contact_delete s cu cid =
     (case get_user s cu of None \<Rightarrow> Inl Unauthorized | Some _ \<Rightarrow>
      (case find (\<lambda>c. c_id c = cid \<and> c_user_id c = cu) (contacts s) of
        None \<Rightarrow> Inl NotFound
      | Some _ \<Rightarrow> Inr (s\<lparr>contacts := filter (\<lambda>c. c_id c \<noteq> cid) (contacts s)\<rparr>)))"

definition api_sched_create ::
  "db \<Rightarrow> nat \<Rightarrow> string \<Rightarrow> real option \<Rightarrow> string \<Rightarrow> string \<Rightarrow> string \<Rightarrow> error + db" where
  "api_sched_create s cu identifier0 amount frequency next_date description =
     (case get_user s cu of None \<Rightarrow> Inl Unauthorized | Some _ \<Rightarrow>
      let identifier = strip identifier0 in
      (case amount of None \<Rightarrow> Inl InvalidAmount | Some a \<Rightarrow>
      if identifier = [] \<or> a \<le> 0 \<or> next_date = [] then Inl AllFieldsRequired
      else
        (case lookup_user s identifier of None \<Rightarrow> Inl RecipientNotFound | Some receiver \<Rightarrow>
        let sp = \<lparr>sp_id = next_id (map sp_id (scheduled_payments s)), sp_sender_id = cu,
                  sp_receiver_id = u_id receiver, sp_amount = a, sp_description = description,
                  sp_frequency = frequency, sp_next_date = next_date, sp_active = True\<rparr>;
            s1 = s\<lparr>scheduled_payments := scheduled_payments s @ [sp]\<rparr>;
            s2 = upd_user cu (award_xp 10) s1
        in Inr s2)))"

definition api_sched_delete :: "db \<Rightarrow> nat \<Rightarrow> nat \<Rightarrow> error + db" where
  "api_sched_delete s cu sid =
     (case get_user s cu of None \<Rightarrow> Inl Unauthorized | Some _ \<Rightarrow>
      (case find (\<lambda>p. sp_id p = sid \<and> sp_sender_id p = cu) (scheduled_payments s) of
        None \<Rightarrow> Inl NotFound
      | Some _ \<Rightarrow>
          Inr (s\<lparr>scheduled_payments :=
                   map (\<lambda>p. if sp_id p = sid then p\<lparr>sp_active := False\<rparr> else p)
                     (scheduled_payments s)\<rparr>)))"

subsection \<open>Split bills\<close>

text \<open>
  The loop of \<^verbatim>\<open>api_split_create\<close> over the request's members, each an identifier and
  an amount: a member that resolves gets a row and a notification, one that does not is
  skipped. The identifier is looked up as given and the amount is stored as given. (A
  member without the two keys, or with an amount that is not a number, raises and nothing
  is committed; the model takes well-formed members.)
\<close>

fun add_members :: "nat \<Rightarrow> (string \<times> real) list \<Rightarrow> db \<Rightarrow> db" where
  "add_members bill [] s = s"
| "add_members bill ((identifier, amount) # members_raw) s =
     (case lookup_user s identifier of
        None \<Rightarrow> add_members bill members_raw s
      | Some u \<Rightarrow>
          add_members bill members_raw
            (add_notification (u_id u) SplitBillAdded ''warning''
               (s\<lparr>split_bill_members := split_bill_members s @
                    [\<lparr>m_bill_id = bill, m_user_id = u_id u, m_amount_owed = amount,
                      m_paid = False, m_paid_at = None\<rparr>]\<rparr>)))"

definition api_split_create ::
  "db \<Rightarrow> nat \<Rightarrow> string \<Rightarrow> real option \<Rightarrow> (string \<times> real) list \<Rightarrow> string \<Rightarrow> error + db" where
  "api_split_create s cu title0 total_amount members_raw description =
     (case get_user s cu of None \<Rightarrow> Inl Unauthorized | Some _ \<Rightarrow>
      let title = strip title0 in
      (case total_amount of None \<Rightarrow> Inl InvalidAmount | Some total_v \<Rightarrow>
      if title = [] \<or> total_v \<le> 0 \<or> members_raw = [] then Inl SplitFieldsRequired
      else
        let bill = \<lparr>b_id = next_id (map b_id (split_bills s)), b_creator_id = cu,
                    b_title = title, b_total_amount = total_v, b_description = description\<rparr>;
            s1 = s\<lparr>split_bills := split_bills s @ [bill]\<rparr>;
            s2 = s1\<lparr>split_bill_members := split_bill_members s1 @
                      [\<lparr>m_bill_id = b_id bill, m_user_id = cu, m_amount_owed = 0,
                        m_paid = True, m_paid_at = None\<rparr>]\<rparr>;
            s3 = add_members (b_id bill) members_raw s2;
            s4 = upd_user cu (award_xp 15) s3
        in Inr s4))"

text \<open>An assignment to the first row that satisfies \<open>P\<close>: the object \<^verbatim>\<open>.first()\<close> gave.\<close>

fun upd_first :: "('a \<Rightarrow> bool) \<Rightarrow> ('a \<Rightarrow> 'a) \<Rightarrow> 'a list \<Rightarrow> 'a list" where
  "upd_first P f [] = []"
| "upd_first P f (x # xs) = (if P x then f x # xs else x # upd_first P f xs)"

definition unpaid_share :: "nat \<Rightarrow> nat \<Rightarrow> split_bill_member \<Rightarrow> bool" where
  "unpaid_share bill uid m = (m_bill_id m = bill \<and> m_user_id m = uid \<and> \<not> m_paid m)"

text \<open>
  The body of \<^verbatim>\<open>api_split_pay\<close> once the membership, the bill and the creator are
  there and the balance covers the share.
\<close>

definition split_pay_commit ::
  "db \<Rightarrow> nat \<Rightarrow> split_bill \<Rightarrow> user \<Rightarrow> real \<Rightarrow> string \<Rightarrow> int \<Rightarrow> db" where
  "split_pay_commit s cu bill creator amount ref now =
     (let s1 = upd_user cu (\<lambda>u. u\<lparr>balance := balance u - amount\<rparr>) s;
          s2 = upd_user (u_id creator) (\<lambda>u. u\<lparr>balance := balance u + amount\<rparr>) s1;
          s3 = add_transaction
                 \<lparr>t_sender_id = Some cu, t_receiver_id = Some (b_creator_id bill),
                  t_amount = amount, t_description = ''Split: '' @ b_title bill,
                  t_type = ''split'', t_category = ''other'', t_reference = ref,
                  t_fee = 0\<rparr> s2;
          s4 = s3\<lparr>split_bill_members :=
                    upd_first (unpaid_share (b_id bill) cu)
                      (\<lambda>m. m\<lparr>m_paid := True, m_paid_at := Some now\<rparr>)
                      (split_bill_members s3)\<rparr>
      in add_notification (u_id creator) SplitPayment ''success'' s4)"

definition api_split_pay :: "db \<Rightarrow> nat \<Rightarrow> nat \<Rightarrow> string \<Rightarrow> int \<Rightarrow> error + db" where
  "api_split_pay s cu bill_id ref now =
     (case get_user s cu of None \<Rightarrow> Inl Unauthorized | Some current_user \<Rightarrow>
      (case find (unpaid_share bill_id cu) (split_bill_members s) of
         None \<Rightarrow> Inl NothingToPay
       | Some membership \<Rightarrow>
      let amount = m_amount_owed membership in
      if balance current_user < amount then Inl InsufficientFunds
      else
        (case find (\<lambda>b. b_id b = bill_id) (split_bills s) of None \<Rightarrow> Inl ServerError | Some bill \<Rightarrow>
        (case get_user s (b_creator_id bill) of None \<Rightarrow> Inl ServerError | Some creator \<Rightarrow>
        Inr (split_pay_commit s cu bill creator amount ref now)))))"

subsection \<open>Profile and account deletion\<close>

definition api_profile_update :: "db \<Rightarrow> nat \<Rightarrow> string \<Rightarrow> string \<Rightarrow> string \<Rightarrow> error + db" where
  "api_profile_update s cu username0 bio0 phone0 =
     (case get_user s cu of None \<Rightarrow> Inl Unauthorized | Some _ \<Rightarrow>
      let name = strip username0 in
      if name = [] then Inl UsernameRequired
      else Inr (upd_user cu
                  (\<lambda>u. u\<lparr>username := name, bio := strip bio0, phone := strip phone0\<rparr>) s))"

text \<open>
  \<^verbatim>\<open>api_delete_account\<close> starts with \<^verbatim>\<open>user = current_user\<close> and \<^verbatim>\<open>logout_user()\<close>.
  \<^verbatim>\<open>current_user\<close> is the proxy of \<^verbatim>\<open>flask_login\<close>, not the user row, so after the
  logout \<^verbatim>\<open>user\<close> stands for the anonymous user, and \<^verbatim>\<open>user.id\<close> in the next statement
  raises \<^verbatim>\<open>AttributeError\<close>. The statements after it, which delete the transactions the
  user received, the user's memberships in split bills and the user, are never reached,
  and nothing is committed.
\<close>

definition api_delete_account :: "db \<Rightarrow> nat \<Rightarrow> error + db" where
  "api_delete_account s cu =
     (case get_user s cu of None \<Rightarrow> Inl Unauthorized | Some _ \<Rightarrow> Inl ServerError)"

subsection \<open>Login\<close>

text \<open>
  The streak logic of \<^verbatim>\<open>oauth2_callback\<close> for a user that exists, as a function of the
  user row and today's date: the new row and the notifications it adds.
\<close>

definition streak_or_0 :: "user \<Rightarrow> int" where
  "streak_or_0 u = (case streak u of None \<Rightarrow> 0 | Some k \<Rightarrow> k)"

definition login_streak :: "int \<Rightarrow> user \<Rightarrow> user \<times> notice list" where
  "login_streak today user =
     (let yesterday = today - 1;
          (u1, ns) =
            (if last_login user = Some yesterday then
               let a = user\<lparr>streak := Some (streak_or_0 user + 1)\<rparr>;
                   b = award_xp 10 a
               in if streak_or_0 b mod 7 = 0
                  then (award_xp 50 b, [DayStreak (streak_or_0 b)])
                  else (b, [])
             else if last_login user \<noteq> Some today then (user\<lparr>streak := Some 1\<rparr>, [])
             else (user, []))
      in (u1\<lparr>last_login := Some today\<rparr>, ns))"

text \<open>
  \<^verbatim>\<open>oauth2_callback\<close> for an anonymous request, once the provider has given the e-mail
  and the name: a new user is created with the welcome balance, a known one goes through
  the streak logic.
\<close>

definition new_user :: "nat \<Rightarrow> string \<Rightarrow> string \<Rightarrow> string \<Rightarrow> int \<Rightarrow> user" where
  "new_user uid mail name acct today =
     \<lparr>u_id = uid, username = name, email = mail, balance = 1000.0, savings_balance = 0.0,
      account_number = acct, bio = [], phone = [], tier = ''bronze'', xp = 0,
      streak = Some 0, last_login = Some today, total_sent = 0.0, total_received = 0.0,
      total_txn_count = 0\<rparr>"

definition oauth2_callback :: "db \<Rightarrow> string \<Rightarrow> string \<Rightarrow> string \<Rightarrow> int \<Rightarrow> db" where
  "oauth2_callback s mail name acct today =
     (case find (\<lambda>u. email u = mail) (users s) of
        None \<Rightarrow>
          let uid = next_id (map u_id (users s));
              s1 = s\<lparr>users := users s @ [new_user uid mail name acct today]\<rparr>;
              s2 = upd_user uid (award_xp 100) s1
          in add_notification uid Welcome ''success'' s2
      | Some user \<Rightarrow>
          let uid = u_id user;
              s1 = upd_user uid (\<lambda>u. fst (login_streak today u)) s
          in foldl (\<lambda>d n. add_notification uid n ''success'' d) s1 (snd (login_streak today user)))"

subsection \<open>Requests and runs\<close>

datatype op =
  Login string string string int
  | Deposit nat "real option" string string
  | Withdraw nat "real option" string
  | Transfer nat "real option" string string string string
  | SavingsCreate nat string "real option" string string
  | SavingsDeposit nat nat "real option" string
  | SavingsWithdraw nat nat "real option"
  | DeleteSavingsGoal nat nat
  | NotifRead nat
  | ContactAdd nat string string
  | ContactDelete nat nat
  | SchedCreate nat string "real option" string string string
  | SchedDelete nat nat
  | CreateSplitBill nat string "real option" "(string \<times> real) list" string
  | SettleSplitShare nat nat string int
  | ProfileUpdate nat string string string
  | DeleteAccount nat

fun step :: "db \<Rightarrow> op \<Rightarrow> error + db" where
  "step s (Login mail name acct today) = Inr (oauth2_callback s mail name acct today)"
| "step s (Deposit cu amount method ref) = api_deposit s cu amount method ref"
| "step s (Withdraw cu amount ref) = api_withdraw s cu amount ref"
| "step s (Transfer cu amount ident descr cat ref) = api_transfer s cu amount ident descr cat ref"
| "step s (SavingsCreate cu name target emoji deadline) =
     api_savings_create s cu name target emoji deadline"
| "step s (SavingsDeposit cu goal amount ref) = api_savings_deposit s cu goal amount ref"
| "step s (SavingsWithdraw cu goal amount) = api_savings_withdraw s cu goal amount"
| "step s (DeleteSavingsGoal cu goal) = api_savings_delete s cu goal"
| "step s (NotifRead cu) = api_notif_read s cu"
| "step s (ContactAdd cu ident nick) = api_contact_add s cu ident nick"
| "step s (ContactDelete cu cid) = api_contact_delete s cu cid"
| "step s (SchedCreate cu ident amount freq next_date descr) =
     api_sched_create s cu ident amount freq next_date descr"
| "step s (SchedDelete cu sid) = api_sched_delete s cu sid"
| "step s (CreateSplitBill cu title total_v members descr) =
     api_split_create s cu title total_v members descr"
| "step s (SettleSplitShare cu bill ref now) = api_split_pay s cu bill ref now"
| "step s (ProfileUpdate cu name b p) = api_profile_update s cu name b p"
| "step s (DeleteAccount cu) = api_delete_account s cu"

text \<open>A request that ends in an error commits nothing: the database stays as it was.\<close>

definition apply_op :: "db \<Rightarrow> op \<Rightarrow> db" where
  "apply_op s x = (case step s x of Inl _ \<Rightarrow> s | Inr s' \<Rightarrow> s')"

fun run :: "db \<Rightarrow> op list \<Rightarrow> db" where
  "run s [] = s"
| "run s (x # xs) = run (apply_op s x) xs"

definition empty_db :: db where
  "empty_db = \<lparr>users = [], transactions = [], notifications = [], savings_goals = [],
               contacts = [], scheduled_payments = [], split_bills = [],
               split_bill_members = []\<rparr>"


section \<open>Properties\<close>

subsection \<open>Definitions for the properties\<close>

text \<open>The tier table as the specification words it: a step function of the experience.\<close>

definition spec_tier :: "int \<Rightarrow> string" where
  "spec_tier x =
     (if x \<ge> 5000 then ''diamond'' else if x \<ge> 2000 then ''platinum''
      else if x \<ge> 800 then ''gold'' else if x \<ge> 200 then ''silver'' else ''bronze'')"

text \<open>Every stored tier is the tier of the stored experience.\<close>

definition tier_ok :: "db \<Rightarrow> bool" where
  "tier_ok s = (\<forall>u \<in> set (users s). tier u = spec_tier (xp u))"









text \<open>The columns the properties read, each with the primary key of its row.\<close>

definition txn_counts :: "db \<Rightarrow> (nat \<times> int) list" where
  "txn_counts s = map (\<lambda>u. (u_id u, total_txn_count u)) (users s)"

definition balances :: "db \<Rightarrow> (nat \<times> real) list" where
  "balances s = map (\<lambda>u. (u_id u, balance u)) (users s)"

text \<open>
  Databases that runs from the empty database reach. Two accounts after their first
  logins on day 100, each with the welcome balance of 1000:
\<close>

definition two_users :: db where
  "two_users = run empty_db [Login ''a@lg.io'' ''asha'' ''LG0001'' 100,
                             Login ''b@lg.io'' ''bala'' ''LG0002'' 100]"

definition asha :: user where
  "asha = award_xp 100 (new_user 1 ''a@lg.io'' ''asha'' ''LG0001'' 100)"

definition bala :: user where
  "bala = award_xp 100 (new_user 2 ''b@lg.io'' ''bala'' ''LG0002'' 100)"

text \<open>One account with a savings goal of 1000.\<close>

definition goal_db :: db where
  "goal_db = run empty_db [Login ''a@lg.io'' ''asha'' ''LG0001'' 100,
                           SavingsCreate 1 ''trip'' (Some 1000) [] []]"

text \<open>A goal of 1000 that holds 900, and a balance of 500.\<close>

definition scenario4 :: db where
  "scenario4 = run goal_db [Deposit 1 (Some 400) ''UPI'' ''TXN1'',
                            SavingsDeposit 1 1 (Some 900) ''TXN2'']"


text \<open>Two accounts, a savings goal, a split bill, and one request of each money-movement kind.\<close>

definition busy_db :: db where
  "busy_db = run two_users
     [SavingsCreate 1 ''trip'' (Some 1000) [] [],
      CreateSplitBill 1 ''dinner'' (Some 100) [(''b@lg.io'', 50)] []]"


subsection \<open>Lemmas on the users table\<close>

lemma first_tier_tiers: "first_tier tiers x ''bronze'' = spec_tier x"
  by (simp add: tiers_def spec_tier_def)

lemma u_id_award_xp [simp]: "u_id (award_xp p u) = u_id u"
  by (simp add: award_xp_def)

lemma xp_award_xp [simp]: "xp (award_xp p u) = xp u + p"
  by (simp add: award_xp_def)

lemma tier_award_xp [simp]: "tier (award_xp p u) = spec_tier (xp u + p)"
  by (simp add: award_xp_def first_tier_tiers)

lemma find_map_upd:
  assumes "\<And>u. u_id (f u) = u_id u"
  shows "find (\<lambda>u. u_id u = v) (map (\<lambda>u. if u_id u = uid then f u else u) us) =
         (if v = uid then map_option f (find (\<lambda>u. u_id u = v) us) else find (\<lambda>u. u_id u = v) us)"
  using assms by (induction us) auto

lemma get_user_upd_user:
  "(\<And>u. u_id (f u) = u_id u) \<Longrightarrow>
   get_user (upd_user uid f s) v = (if v = uid then map_option f (get_user s v) else get_user s v)"
  by (simp add: get_user_def upd_user_def find_map_upd)

lemma get_user_add_transaction [simp]: "get_user (add_transaction t s) v = get_user s v"
  by (simp add: get_user_def add_transaction_def)

lemma get_user_add_notification [simp]: "get_user (add_notification a b c s) v = get_user s v"
  by (simp add: get_user_def add_notification_def)

lemma get_user_save_contact [simp]: "get_user (save_contact a b c s) v = get_user s v"
  by (simp add: get_user_def save_contact_def)

lemma get_user_upd_goal [simp]: "get_user (upd_goal g f s) v = get_user s v"
  by (simp add: get_user_def upd_goal_def)

lemma get_user_other_tables [simp]:
  "get_user (s\<lparr>transactions := ts\<rparr>) v = get_user s v"
  "get_user (s\<lparr>notifications := ns\<rparr>) v = get_user s v"
  "get_user (s\<lparr>savings_goals := gs\<rparr>) v = get_user s v"
  "get_user (s\<lparr>contacts := cs\<rparr>) v = get_user s v"
  "get_user (s\<lparr>scheduled_payments := ps\<rparr>) v = get_user s v"
  "get_user (s\<lparr>split_bills := bs\<rparr>) v = get_user s v"
  "get_user (s\<lparr>split_bill_members := ms\<rparr>) v = get_user s v"
  by (simp_all add: get_user_def)

lemma get_user_add_members [simp]: "get_user (add_members b ms s) v = get_user s v"
  by (induction b ms s rule: add_members.induct) (auto split: option.splits)

lemma get_user_foldl_notify [simp]:
  "get_user (foldl (\<lambda>d n. add_notification uid n ty d) s ns) v = get_user s v"
  by (induction ns arbitrary: s) auto

lemma u_id_login_streak [simp]: "u_id (fst (login_streak today u)) = u_id u"
  by (simp add: login_streak_def Let_def split: prod.splits)

lemma xp_login_streak: "xp u \<le> xp (fst (login_streak today u))"
  by (simp add: login_streak_def Let_def split: prod.splits)

lemma tier_login_streak:
  "tier u = spec_tier (xp u) \<Longrightarrow>
   tier (fst (login_streak today u)) = spec_tier (xp (fst (login_streak today u)))"
  by (simp add: login_streak_def Let_def split: prod.splits)

lemma get_user_append:
  "get_user (s\<lparr>users := users s @ [n]\<rparr>) v =
     (case get_user s v of Some u \<Rightarrow> Some u | None \<Rightarrow> if u_id n = v then Some n else None)"
proof -
  have "find P (xs @ [n]) = (case find P xs of Some u \<Rightarrow> Some u | None \<Rightarrow> if P n then Some n else None)"
    for P :: "user \<Rightarrow> bool" and xs
    by (induction xs) auto
  then show ?thesis by (simp add: get_user_def)
qed

lemma step_xp:
  assumes "step s x = Inr s'" "get_user s v = Some u"
  shows "\<exists>u'. get_user s' v = Some u' \<and> xp u \<le> xp u'"
proof (cases x)
  case (Login mail name acct today)
  then show ?thesis using assms xp_login_streak [of u today]
    by (auto simp: oauth2_callback_def Let_def get_user_upd_user get_user_append
        split: option.splits)
next
  case Deposit then show ?thesis using assms
    by (auto simp: api_deposit_def deposit_commit_def Let_def get_user_upd_user split: option.splits if_splits)
next
  case Withdraw then show ?thesis using assms
    by (auto simp: api_withdraw_def withdraw_commit_def Let_def get_user_upd_user split: option.splits if_splits)
next
  case Transfer then show ?thesis using assms
    by (auto simp: api_transfer_def transfer_commit_def Let_def get_user_upd_user split: option.splits if_splits)
next
  case SavingsCreate then show ?thesis using assms
    by (auto simp: api_savings_create_def Let_def get_user_upd_user split: option.splits if_splits)
next
  case SavingsDeposit then show ?thesis using assms
    by (auto simp: api_savings_deposit_def savings_deposit_commit_def Let_def get_user_upd_user split: option.splits if_splits)
next
  case SavingsWithdraw then show ?thesis using assms
    by (auto simp: api_savings_withdraw_def savings_withdraw_commit_def Let_def get_user_upd_user split: option.splits if_splits)
next
  case DeleteSavingsGoal then show ?thesis using assms
    by (auto simp: api_savings_delete_def Let_def get_user_upd_user split: option.splits if_splits)
next
  case NotifRead then show ?thesis using assms
    by (auto simp: api_notif_read_def split: option.splits)
next
  case ContactAdd then show ?thesis using assms
    by (auto simp: api_contact_add_def Let_def split: option.splits if_splits)
next
  case ContactDelete then show ?thesis using assms
    by (auto simp: api_contact_delete_def split: option.splits)
next
  case SchedCreate then show ?thesis using assms
    by (auto simp: api_sched_create_def Let_def get_user_upd_user split: option.splits if_splits)
next
  case SchedDelete then show ?thesis using assms
    by (auto simp: api_sched_delete_def split: option.splits)
next
  case CreateSplitBill then show ?thesis using assms
    by (auto simp: api_split_create_def Let_def get_user_upd_user split: option.splits if_splits)
next
  case SettleSplitShare then show ?thesis using assms
    by (auto simp: api_split_pay_def split_pay_commit_def Let_def get_user_upd_user split: option.splits if_splits)
next
  case ProfileUpdate then show ?thesis using assms
    by (auto simp: api_profile_update_def Let_def get_user_upd_user split: option.splits if_splits)
next
  case (DeleteAccount cu) then show ?thesis using assms
    by (auto simp: api_delete_account_def split: option.splits)
qed

lemma users_simps:
  "users (upd_user uid f s) = map (\<lambda>u. if u_id u = uid then f u else u) (users s)"
  "users (add_transaction t s) = users s"
  "users (add_notification a b c s) = users s"
  "users (save_contact a b' c' s) = users s"
  "users (upd_goal g h s) = users s"
  by (simp_all add: upd_user_def add_transaction_def add_notification_def save_contact_def
      upd_goal_def)

lemma users_add_members: "users (add_members b ms s) = users s"
  by (induction b ms s rule: add_members.induct) (auto simp: users_simps split: option.splits)

lemma titles_foldl_notify:
  "map n_title (notifications (foldl (\<lambda>d n. add_notification uid n ty d) s ns)) =
     map n_title (notifications s) @ ns"
  by (induction ns arbitrary: s) (auto simp: add_notification_def)

lemma users_foldl_notify:
  "users (foldl (\<lambda>d n. add_notification uid n ty d) s ns) = users s"
  by (induction ns arbitrary: s) (auto simp: users_simps)

lemma tier_ok_upd_user:
  "tier_ok s \<Longrightarrow> (\<And>u. tier u = spec_tier (xp u) \<Longrightarrow> tier (f u) = spec_tier (xp (f u))) \<Longrightarrow>
   tier_ok (upd_user uid f s)"
  by (auto simp: tier_ok_def users_simps)

lemma tier_ok_simps [simp]:
  "tier_ok (add_transaction t s) = tier_ok s"
  "tier_ok (add_notification a b c s) = tier_ok s"
  "tier_ok (save_contact a b' c' s) = tier_ok s"
  "tier_ok (upd_goal g h s) = tier_ok s"
  "tier_ok (add_members bl ms s) = tier_ok s"
  "tier_ok (foldl (\<lambda>d n. add_notification uid n ty d) s ns) = tier_ok s"
  "tier_ok (s\<lparr>transactions := ts\<rparr>) = tier_ok s"
  "tier_ok (s\<lparr>notifications := ns'\<rparr>) = tier_ok s"
  "tier_ok (s\<lparr>savings_goals := gs\<rparr>) = tier_ok s"
  "tier_ok (s\<lparr>contacts := cs\<rparr>) = tier_ok s"
  "tier_ok (s\<lparr>scheduled_payments := ps\<rparr>) = tier_ok s"
  "tier_ok (s\<lparr>split_bills := bs\<rparr>) = tier_ok s"
  "tier_ok (s\<lparr>split_bill_members := mbs\<rparr>) = tier_ok s"
  by (simp_all add: tier_ok_def users_simps users_add_members users_foldl_notify)

lemma tier_ok_new_user:
  "tier_ok s \<Longrightarrow> tier u = spec_tier (xp u) \<Longrightarrow> tier_ok (s\<lparr>users := users s @ [u]\<rparr>)"
  by (auto simp: tier_ok_def)

lemma step_tier_ok:
  assumes "step s x = Inr s'" "tier_ok s"
  shows "tier_ok s'"
proof (cases x)
  case (Login mail name acct today)
  then show ?thesis using assms
    by (auto simp: oauth2_callback_def Let_def new_user_def spec_tier_def
        intro!: tier_ok_upd_user tier_ok_new_user tier_login_streak split: option.splits)
next
  case Deposit then show ?thesis using assms
    by (auto simp: api_deposit_def deposit_commit_def Let_def intro!: tier_ok_upd_user split: option.splits if_splits)
next
  case Withdraw then show ?thesis using assms
    by (auto simp: api_withdraw_def withdraw_commit_def Let_def intro!: tier_ok_upd_user split: option.splits if_splits)
next
  case Transfer then show ?thesis using assms
    by (auto simp: api_transfer_def transfer_commit_def Let_def intro!: tier_ok_upd_user split: option.splits if_splits)
next
  case SavingsCreate then show ?thesis using assms
    by (auto simp: api_savings_create_def Let_def intro!: tier_ok_upd_user split: option.splits if_splits)
next
  case SavingsDeposit then show ?thesis using assms
    by (auto simp: api_savings_deposit_def savings_deposit_commit_def Let_def intro!: tier_ok_upd_user split: option.splits if_splits)
next
  case SavingsWithdraw then show ?thesis using assms
    by (auto simp: api_savings_withdraw_def savings_withdraw_commit_def Let_def intro!: tier_ok_upd_user split: option.splits if_splits)
next
  case DeleteSavingsGoal then show ?thesis using assms
    by (auto simp: api_savings_delete_def Let_def intro!: tier_ok_upd_user split: option.splits if_splits)
next
  case NotifRead then show ?thesis using assms
    by (auto simp: api_notif_read_def split: option.splits)
next
  case ContactAdd then show ?thesis using assms
    by (auto simp: api_contact_add_def Let_def split: option.splits if_splits)
next
  case ContactDelete then show ?thesis using assms
    by (auto simp: api_contact_delete_def split: option.splits)
next
  case SchedCreate then show ?thesis using assms
    by (auto simp: api_sched_create_def Let_def intro!: tier_ok_upd_user split: option.splits if_splits)
next
  case SchedDelete then show ?thesis using assms
    by (auto simp: api_sched_delete_def split: option.splits)
next
  case CreateSplitBill then show ?thesis using assms
    by (auto simp: api_split_create_def Let_def intro!: tier_ok_upd_user split: option.splits if_splits)
next
  case SettleSplitShare then show ?thesis using assms
    by (auto simp: api_split_pay_def split_pay_commit_def Let_def intro!: tier_ok_upd_user split: option.splits if_splits)
next
  case ProfileUpdate then show ?thesis using assms
    by (auto simp: api_profile_update_def Let_def intro!: tier_ok_upd_user split: option.splits if_splits)
next
  case (DeleteAccount cu) then show ?thesis using assms
    by (auto simp: api_delete_account_def split: option.splits)
qed

lemma apply_op_tier_ok: "tier_ok s \<Longrightarrow> tier_ok (apply_op s x)"
  by (auto simp: apply_op_def split: sum.splits dest: step_tier_ok)

lemma run_tier_ok: "tier_ok s \<Longrightarrow> tier_ok (run s ops)"
  by (induction ops arbitrary: s) (auto simp: apply_op_tier_ok)

lemma apply_op_xp:
  "get_user s v = Some u \<Longrightarrow>
   \<exists>u'. get_user (apply_op s x) v = Some u' \<and> xp u \<le> xp u'"
  by (auto simp: apply_op_def split: sum.splits dest: step_xp)

lemma run_xp:
  "get_user s v = Some u \<Longrightarrow>
   \<exists>u'. get_user (run s ops) v = Some u' \<and> xp u \<le> xp u'"
proof (induction ops arbitrary: s u)
  case Nil
  then show ?case by simp
next
  case (Cons x xs)
  from Cons.prems obtain u1 where u1: "get_user (apply_op s x) v = Some u1" "xp u \<le> xp u1"
    using apply_op_xp [of s v u x] by auto
  from Cons.IH [OF u1(1)]
  obtain u' where "get_user (run (apply_op s x) xs) v = Some u'" "xp u1 \<le> xp u'" by auto
  with u1 show ?case by auto
qed

lemma get_user_mem: "get_user s v = Some u \<Longrightarrow> u \<in> set (users s)"
  by (auto simp: get_user_def find_Some_iff)

subsection \<open>What a successful request has checked and done\<close>

lemma api_deposit_Inr:
  assumes "api_deposit s cu amount m r = Inr s'"
  shows "\<exists>a. amount = Some a \<and> 0 < a \<and> a \<le> 100000 \<and> s' = deposit_commit s cu a m r"
  using assms unfolding api_deposit_def
  by (simp split: option.splits if_splits)

lemma api_withdraw_Inr:
  assumes "api_withdraw s cu amount r = Inr s'"
  shows "\<exists>a cur. amount = Some a \<and> 0 < a \<and> get_user s cu = Some cur \<and> a \<le> balance cur \<and>
           s' = withdraw_commit s cu a r"
  using assms unfolding api_withdraw_def
  by (simp split: option.splits if_splits)

lemma api_transfer_Inr:
  assumes "api_transfer s cu amount i d c r = Inr s'"
  shows "\<exists>a rcv cur. amount = Some a \<and> 0 < a \<and> a \<le> 50000 \<and> strip i \<noteq> [] \<and>
           lookup_user s (strip i) = Some rcv \<and> u_id rcv \<noteq> cu \<and>
           get_user s cu = Some cur \<and> a + transfer_fee a \<le> balance cur \<and>
           s' = transfer_commit s cu rcv a (transfer_fee a) (strip d) (strip c) r"
  using assms unfolding api_transfer_def Let_def
  by (simp split: option.splits if_splits)

lemma api_savings_deposit_Inr:
  assumes "api_savings_deposit s cu gid amount r = Inr s'"
  shows "\<exists>a cur g. amount = Some a \<and> 0 < a \<and> get_user s cu = Some cur \<and> a \<le> balance cur \<and>
           get_goal s gid cu = Some g \<and> s' = savings_deposit_commit s cu g a r"
  using assms unfolding api_savings_deposit_def
  by (simp split: option.splits if_splits)

lemma api_savings_withdraw_Inr:
  assumes "api_savings_withdraw s cu gid amount = Inr s'"
  shows "\<exists>a g. amount = Some a \<and> get_goal s gid cu = Some g \<and> a \<le> g_current g \<and>
           s' = savings_withdraw_commit s cu g a"
  using assms unfolding api_savings_withdraw_def
  by (simp split: option.splits if_splits)

lemma api_split_pay_Inr:
  assumes "api_split_pay s cu bid r now = Inr s'"
  shows "\<exists>cur m bill creator.
           get_user s cu = Some cur \<and> find (unpaid_share bid cu) (split_bill_members s) = Some m \<and>
           m_amount_owed m \<le> balance cur \<and> find (\<lambda>b. b_id b = bid) (split_bills s) = Some bill \<and>
           get_user s (b_creator_id bill) = Some creator \<and>
           s' = split_pay_commit s cu bill creator (m_amount_owed m) r now"
  using assms unfolding api_split_pay_def Let_def
  by (simp split: option.splits if_splits)


lemma award_xp_fields [simp]:
  "total_sent (award_xp p u) = total_sent u"
  "total_received (award_xp p u) = total_received u"
  "total_txn_count (award_xp p u) = total_txn_count u"
  "balance (award_xp p u) = balance u"
  "savings_balance (award_xp p u) = savings_balance u"
  by (simp_all add: award_xp_def)

text \<open>A column of the users table that an assignment leaves alone.\<close>

lemma col_upd_user:
  "(\<And>u. h (f u) = h u) \<Longrightarrow> map h (users (upd_user uid f s)) = map h (users s)"
  by (simp add: upd_user_def)

lemma col_simps:
  "map h (users (add_transaction t s)) = map h (users s)"
  "map h (users (add_notification a b c s)) = map h (users s)"
  "map h (users (save_contact a b' c' s)) = map h (users s)"
  "map h (users (upd_goal g k s)) = map h (users s)"
  "map h (users (s\<lparr>split_bill_members := ms\<rparr>)) = map h (users s)"
  by (simp_all add: users_simps)





lemma users_transfer_commit:
  "u_id rcv \<noteq> cu \<Longrightarrow>
   users (transfer_commit s cu rcv a fee d c r) =
     map (\<lambda>u. if u_id u = cu
               then award_xp 15 (u\<lparr>balance := balance u - (a + fee),
                                  total_sent := total_sent u + a,
                                  total_txn_count := total_txn_count u + 1\<rparr>)
               else if u_id u = u_id rcv
               then u\<lparr>balance := balance u + a, total_received := total_received u + a,
                      total_txn_count := total_txn_count u + 1\<rparr>
               else u) (users s)"
  by (simp add: transfer_commit_def Let_def users_simps)





lemma txn_counts_frame:
  "txn_counts (deposit_commit s cu a m r) = txn_counts s"
  "txn_counts (withdraw_commit s cu a r) = txn_counts s"
  "txn_counts (savings_deposit_commit s cu g a r) = txn_counts s"
  "txn_counts (savings_withdraw_commit s cu g a) = txn_counts s"
  "txn_counts (split_pay_commit s cu bill creator a r now) = txn_counts s"
  by (simp_all add: txn_counts_def deposit_commit_def withdraw_commit_def
      savings_deposit_commit_def savings_withdraw_commit_def split_pay_commit_def Let_def
      col_upd_user col_simps)

subsection \<open>The fee on doubles\<close>

text \<open>
  The literal 0.001 is the double \<open>1152921504606847 / 2 ^ 60\<close>. Where the exact product
  is a tie between two cents, the double product decides: 1005 gives 1.01 and 1035 gives
  1.03.
\<close>

lemma transfer_fee_values:
  "fl 0.001 = 1152921504606847 / 2 ^ 60"
  "transfer_fee 1000 = 0"
  "transfer_fee 1005 = fl 1.01"
  "transfer_fee 1035 = fl 1.03"
  "transfer_fee 1200 = fl 1.2"
  "transfer_fee 1500 = 1.5"
  by code_simp+

subsection \<open>The ledger and the running totals\<close>










subsection \<open>Non-negative balances\<close>

text \<open>
  C2. \<^verbatim>\<open>api_savings_withdraw\<close> checks the amount against the goal only, not that it is
  positive: withdrawing -2000 from a goal that holds 0 is accepted and takes the balance
  from 1000 to -1000.
\<close>

theorem savings_withdraw_negative_amount_overdraws:
  "balances goal_db = [(1, 1000)]
   \<and> step goal_db (SavingsWithdraw 1 1 (Some (- 2000))) =
       Inr (run goal_db [SavingsWithdraw 1 1 (Some (- 2000))])
   \<and> balances (run goal_db [SavingsWithdraw 1 1 (Some (- 2000))]) = [(1, - 1000)]"
  by code_simp

subsection \<open>Transfers\<close>

text \<open>
  C7. As stated the claim fails: the limit of a single transfer is 50000, so a transfer of
  1500 from a balance of 1000 is not turned away as \<open>LimitExceeded\<close>.
\<close>

theorem transfer_1500_of_1000_not_limit_exceeded:
  "balances two_users = [(1, 1000), (2, 1000)]
   \<and> step two_users (Transfer 1 (Some 1500) ''b@lg.io'' [] ''other'' ''TXN1'') =
       Inl InsufficientFunds
   \<and> step two_users (Transfer 1 (Some 1500) ''b@lg.io'' [] ''other'' ''TXN1'') \<noteq>
       Inl LimitExceeded"
  by code_simp

text \<open>
  C7, amended. From an account with balance 1000, a transfer of 1500 to a valid, distinct
  recipient is rejected with \<open>InsufficientFunds\<close> (1500 and the fee of 1.50 exceed the
  balance) and the database stays as it was.
\<close>

theorem transfer_1500_of_1000_rejected:
  assumes "get_user s cu = Some cur" and "balance cur = 1000" and "strip i \<noteq> []"
    and "lookup_user s (strip i) = Some rcv" and "u_id rcv \<noteq> cu"
  shows "step s (Transfer cu (Some 1500) i d c r) = Inl InsufficientFunds
       \<and> apply_op s (Transfer cu (Some 1500) i d c r) = s"
  using assms
  by (simp add: apply_op_def api_transfer_def Let_def transfer_fee_values)

theorem transfer_1500_of_1000_rejected_witness:
  "get_user two_users 1 = Some asha \<and> balance asha = 1000 \<and> strip ''b@lg.io'' \<noteq> []
   \<and> lookup_user two_users (strip ''b@lg.io'') = Some bala \<and> u_id bala \<noteq> 1
   \<and> step two_users (Transfer 1 (Some 1500) ''b@lg.io'' [] ''other'' ''TXN1'') =
       Inl InsufficientFunds
   \<and> apply_op two_users (Transfer 1 (Some 1500) ''b@lg.io'' [] ''other'' ''TXN1'') = two_users"
proof -
  have a: "get_user two_users 1 = Some asha" by code_simp
  have b: "balance asha = 1000" by code_simp
  have c: "strip ''b@lg.io'' \<noteq> []" by code_simp
  have d: "lookup_user two_users (strip ''b@lg.io'') = Some bala" by code_simp
  have e: "u_id bala \<noteq> 1" by code_simp
  from transfer_1500_of_1000_rejected [OF a b c d e, of "[]" "''other''" "''TXN1''"] a b c d e
  show ?thesis by blast
qed

text \<open>
  C10. Deposit, Withdraw, SavingsDeposit, SavingsWithdraw and SettleSplitShare leave every
  account's \<^verbatim>\<open>total_txn_count\<close> as it was; a Transfer adds one to the sender's and one
  to the recipient's and leaves the others.
\<close>

theorem only_transfer_counts:
  "(step s (Deposit cu amount m r) = Inr s' \<longrightarrow> txn_counts s' = txn_counts s)
 \<and> (step s (Withdraw cu amount r) = Inr s' \<longrightarrow> txn_counts s' = txn_counts s)
 \<and> (step s (SavingsDeposit cu gid amount r) = Inr s' \<longrightarrow> txn_counts s' = txn_counts s)
 \<and> (step s (SavingsWithdraw cu gid amount) = Inr s' \<longrightarrow> txn_counts s' = txn_counts s)
 \<and> (step s (SettleSplitShare cu bid r now) = Inr s' \<longrightarrow> txn_counts s' = txn_counts s)
 \<and> (step s (Transfer cu amount i d c r) = Inr s' \<longrightarrow>
       (\<exists>cur rcv. get_user s cu = Some cur \<and> lookup_user s (strip i) = Some rcv \<and> u_id rcv \<noteq> cu \<and>
          txn_counts s' =
            map (\<lambda>u. (u_id u, if u_id u = cu \<or> u_id u = u_id rcv
                               then total_txn_count u + 1 else total_txn_count u)) (users s)))"
proof (intro conjI impI)
  assume "step s (Deposit cu amount m r) = Inr s'"
  then show "txn_counts s' = txn_counts s"
    using api_deposit_Inr [of s cu amount m r s'] by (auto simp: txn_counts_frame)
next
  assume "step s (Withdraw cu amount r) = Inr s'"
  then show "txn_counts s' = txn_counts s"
    using api_withdraw_Inr [of s cu amount r s'] by (auto simp: txn_counts_frame)
next
  assume "step s (SavingsDeposit cu gid amount r) = Inr s'"
  then show "txn_counts s' = txn_counts s"
    using api_savings_deposit_Inr [of s cu gid amount r s'] by (auto simp: txn_counts_frame)
next
  assume "step s (SavingsWithdraw cu gid amount) = Inr s'"
  then show "txn_counts s' = txn_counts s"
    using api_savings_withdraw_Inr [of s cu gid amount s'] by (auto simp: txn_counts_frame)
next
  assume "step s (SettleSplitShare cu bid r now) = Inr s'"
  then show "txn_counts s' = txn_counts s"
    using api_split_pay_Inr [of s cu bid r now s'] by (auto simp: txn_counts_frame)
next
  assume "step s (Transfer cu amount i d c r) = Inr s'"
  then obtain a rcv cur where h: "get_user s cu = Some cur" "lookup_user s (strip i) = Some rcv"
    "u_id rcv \<noteq> cu" "s' = transfer_commit s cu rcv a (transfer_fee a) (strip d) (strip c) r"
    using api_transfer_Inr [of s cu amount i d c r s'] by auto
  have "txn_counts s' =
        map (\<lambda>u. (u_id u, if u_id u = cu \<or> u_id u = u_id rcv
                           then total_txn_count u + 1 else total_txn_count u)) (users s)"
    by (simp add: txn_counts_def h(4) users_transfer_commit [OF h(3)])
  with h show "\<exists>cur rcv. get_user s cu = Some cur \<and> lookup_user s (strip i) = Some rcv \<and>
      u_id rcv \<noteq> cu \<and>
      txn_counts s' =
        map (\<lambda>u. (u_id u, if u_id u = cu \<or> u_id u = u_id rcv
                           then total_txn_count u + 1 else total_txn_count u)) (users s)"
    by blast
qed

theorem only_transfer_counts_witness:
  "step busy_db (Deposit 1 (Some 1000) ''UPI'' ''TXN1'') =
     Inr (run busy_db [Deposit 1 (Some 1000) ''UPI'' ''TXN1''])
   \<and> txn_counts (run busy_db [Deposit 1 (Some 1000) ''UPI'' ''TXN1'']) = txn_counts busy_db
   \<and> step busy_db (Withdraw 2 (Some 500) ''TXN2'') = Inr (run busy_db [Withdraw 2 (Some 500) ''TXN2''])
   \<and> txn_counts (run busy_db [Withdraw 2 (Some 500) ''TXN2'']) = txn_counts busy_db
   \<and> step busy_db (SavingsDeposit 1 1 (Some 100) ''TXN4'') =
       Inr (run busy_db [SavingsDeposit 1 1 (Some 100) ''TXN4''])
   \<and> txn_counts (run busy_db [SavingsDeposit 1 1 (Some 100) ''TXN4'']) = txn_counts busy_db
   \<and> step busy_db (SavingsWithdraw 1 1 (Some 0)) = Inr (run busy_db [SavingsWithdraw 1 1 (Some 0)])
   \<and> txn_counts (run busy_db [SavingsWithdraw 1 1 (Some 0)]) = txn_counts busy_db
   \<and> step busy_db (SettleSplitShare 2 1 ''TXN5'' 7) =
       Inr (run busy_db [SettleSplitShare 2 1 ''TXN5'' 7])
   \<and> txn_counts (run busy_db [SettleSplitShare 2 1 ''TXN5'' 7]) = txn_counts busy_db
   \<and> step busy_db (Transfer 1 (Some 100) ''b@lg.io'' [] ''other'' ''TXN3'') =
       Inr (run busy_db [Transfer 1 (Some 100) ''b@lg.io'' [] ''other'' ''TXN3''])
   \<and> (\<exists>cur rcv. get_user busy_db 1 = Some cur \<and>
         lookup_user busy_db (strip ''b@lg.io'') = Some rcv \<and> u_id rcv \<noteq> 1 \<and>
         txn_counts (run busy_db [Transfer 1 (Some 100) ''b@lg.io'' [] ''other'' ''TXN3'']) =
           map (\<lambda>u. (u_id u, if u_id u = 1 \<or> u_id u = u_id rcv
                              then total_txn_count u + 1 else total_txn_count u))
             (users busy_db))"
proof -
  have a: "step busy_db (Deposit 1 (Some 1000) ''UPI'' ''TXN1'') =
     Inr (run busy_db [Deposit 1 (Some 1000) ''UPI'' ''TXN1''])" by code_simp
  have b: "step busy_db (Withdraw 2 (Some 500) ''TXN2'') =
     Inr (run busy_db [Withdraw 2 (Some 500) ''TXN2''])" by code_simp
  have c: "step busy_db (SavingsDeposit 1 1 (Some 100) ''TXN4'') =
       Inr (run busy_db [SavingsDeposit 1 1 (Some 100) ''TXN4''])" by code_simp
  have d: "step busy_db (SavingsWithdraw 1 1 (Some 0)) =
       Inr (run busy_db [SavingsWithdraw 1 1 (Some 0)])" by code_simp
  have e: "step busy_db (SettleSplitShare 2 1 ''TXN5'' 7) =
       Inr (run busy_db [SettleSplitShare 2 1 ''TXN5'' 7])" by code_simp
  have f: "step busy_db (Transfer 1 (Some 100) ''b@lg.io'' [] ''other'' ''TXN3'') =
       Inr (run busy_db [Transfer 1 (Some 100) ''b@lg.io'' [] ''other'' ''TXN3''])" by code_simp
  note t = only_transfer_counts [where s = busy_db]
  from a t [where cu = 1 and amount = "Some 1000" and m = "''UPI''" and r = "''TXN1''"
      and s' = "run busy_db [Deposit 1 (Some 1000) ''UPI'' ''TXN1'']"]
  have 1: "txn_counts (run busy_db [Deposit 1 (Some 1000) ''UPI'' ''TXN1'']) = txn_counts busy_db"
    by blast
  from b t [where cu = 2 and amount = "Some 500" and r = "''TXN2''"
      and s' = "run busy_db [Withdraw 2 (Some 500) ''TXN2'']"]
  have 2: "txn_counts (run busy_db [Withdraw 2 (Some 500) ''TXN2'']) = txn_counts busy_db"
    by blast
  from c t [where cu = 1 and gid = 1 and amount = "Some 100" and r = "''TXN4''"
      and s' = "run busy_db [SavingsDeposit 1 1 (Some 100) ''TXN4'']"]
  have 3: "txn_counts (run busy_db [SavingsDeposit 1 1 (Some 100) ''TXN4'']) = txn_counts busy_db"
    by blast
  from d t [where cu = 1 and gid = 1 and amount = "Some 0"
      and s' = "run busy_db [SavingsWithdraw 1 1 (Some 0)]"]
  have 4: "txn_counts (run busy_db [SavingsWithdraw 1 1 (Some 0)]) = txn_counts busy_db"
    by blast
  from e t [where cu = 2 and bid = 1 and r = "''TXN5''" and now = 7
      and s' = "run busy_db [SettleSplitShare 2 1 ''TXN5'' 7]"]
  have 5: "txn_counts (run busy_db [SettleSplitShare 2 1 ''TXN5'' 7]) = txn_counts busy_db"
    by blast
  from f t [where cu = 1 and amount = "Some 100" and i = "''b@lg.io''" and d = "[]"
      and c = "''other''" and r = "''TXN3''"
      and s' = "run busy_db [Transfer 1 (Some 100) ''b@lg.io'' [] ''other'' ''TXN3'']"]
  have 6: "\<exists>cur rcv. get_user busy_db 1 = Some cur \<and>
         lookup_user busy_db (strip ''b@lg.io'') = Some rcv \<and> u_id rcv \<noteq> 1 \<and>
         txn_counts (run busy_db [Transfer 1 (Some 100) ''b@lg.io'' [] ''other'' ''TXN3'']) =
           map (\<lambda>u. (u_id u, if u_id u = 1 \<or> u_id u = u_id rcv
                              then total_txn_count u + 1 else total_txn_count u))
             (users busy_db)"
    by blast
  from a b c d e f 1 2 3 4 5 6 show ?thesis by (intro conjI)
qed

subsection \<open>Savings goals\<close>

text \<open>
  C4. \<^verbatim>\<open>api_savings_deposit\<close> tests only that the goal is at or above its target after
  the deposit, not that it was below before: with a target of 1000 and 900 saved, the
  deposit of 100 emits the milestone and its 100 bonus points, and the next deposit of 50
  emits both again.
\<close>

theorem goal_milestone_repeats:
  "map g_target (savings_goals scenario4) = [1000]
   \<and> map g_current (savings_goals scenario4) = [900]
   \<and> balances scenario4 = [(1, 500)]
   \<and> map xp (users scenario4) = [135]
   \<and> length (filter (\<lambda>n. n_title n = GoalAchieved) (notifications scenario4)) = 0
   \<and> length (filter (\<lambda>n. n_title n = GoalAchieved)
        (notifications (run scenario4 [SavingsDeposit 1 1 (Some 100) ''TXN3'']))) = 1
   \<and> map xp (users (run scenario4 [SavingsDeposit 1 1 (Some 100) ''TXN3''])) = [245]
   \<and> map g_current (savings_goals (run scenario4
        [SavingsDeposit 1 1 (Some 100) ''TXN3'', SavingsDeposit 1 1 (Some 50) ''TXN4''])) = [1050]
   \<and> length (filter (\<lambda>n. n_title n = GoalAchieved)
        (notifications (run scenario4
           [SavingsDeposit 1 1 (Some 100) ''TXN3'', SavingsDeposit 1 1 (Some 50) ''TXN4'']))) = 2
   \<and> map xp (users (run scenario4
        [SavingsDeposit 1 1 (Some 100) ''TXN3'', SavingsDeposit 1 1 (Some 50) ''TXN4''])) = [355]"
  by code_simp

subsection \<open>Account deletion\<close>


subsection \<open>Login streak\<close>

text \<open>
  C6. As stated the claim fails in its last part: a login dated before the stored last
  login is not rejected, it resets the streak to 1 and stores the earlier date.
\<close>

theorem earlier_date_login_is_applied:
  "map (\<lambda>u. (streak u, last_login u)) (users two_users) = [(Some 0, Some 100), (Some 0, Some 100)]
   \<and> step two_users (Login ''a@lg.io'' ''asha'' ''LG0009'' 95) =
       Inr (run two_users [Login ''a@lg.io'' ''asha'' ''LG0009'' 95])
   \<and> map (\<lambda>u. (streak u, last_login u))
        (users (run two_users [Login ''a@lg.io'' ''asha'' ''LG0009'' 95])) =
       [(Some 1, Some 95), (Some 0, Some 100)]"
  by code_simp

text \<open>
  C6, amended. As a function of the stored last login date and today, the streak logic
  always stores today's date. On the day after the last login the streak grows by one and
  the experience by 10, and by 50 more with a milestone notification when the new streak
  is a multiple of 7; on the day of the last login streak and experience stay; in every
  other case, no stored date, a gap of two days or more, or a date before the last
  login, the streak becomes 1 and the experience stays: a date before the last login is
  not rejected. The handler applies this to the row of the account that logs in.
\<close>

theorem login_streak_transition:
  "last_login (fst (login_streak today u)) = Some today
 \<and> (last_login u = Some (today - 1) \<longrightarrow>
       streak (fst (login_streak today u)) = Some (streak_or_0 u + 1) \<and>
       (if (streak_or_0 u + 1) mod 7 = 0
        then xp (fst (login_streak today u)) = xp u + 10 + 50 \<and>
             snd (login_streak today u) = [DayStreak (streak_or_0 u + 1)]
        else xp (fst (login_streak today u)) = xp u + 10 \<and> snd (login_streak today u) = []))
 \<and> (last_login u = Some today \<longrightarrow>
       streak (fst (login_streak today u)) = streak u \<and>
       xp (fst (login_streak today u)) = xp u \<and> snd (login_streak today u) = [])
 \<and> (last_login u \<noteq> Some (today - 1) \<and> last_login u \<noteq> Some today \<longrightarrow>
       streak (fst (login_streak today u)) = Some 1 \<and>
       xp (fst (login_streak today u)) = xp u \<and> snd (login_streak today u) = [])
 \<and> (last_login u = None \<longrightarrow> streak (fst (login_streak today u)) = Some 1)
 \<and> (\<forall>d. last_login u = Some d \<and> today < d \<longrightarrow>
       streak (fst (login_streak today u)) = Some 1 \<and>
       last_login (fst (login_streak today u)) = Some today)
 \<and> (find (\<lambda>u. email u = mail) (users s) = Some u \<longrightarrow>
       users (oauth2_callback s mail name acct today) =
         map (\<lambda>v. if u_id v = u_id u then fst (login_streak today v) else v) (users s) \<and>
       map n_title (notifications (oauth2_callback s mail name acct today)) =
         map n_title (notifications s) @ snd (login_streak today u))"
proof -
  have cases: "last_login (fst (login_streak today u)) = Some today
     \<and> (last_login u = Some (today - 1) \<longrightarrow>
           streak (fst (login_streak today u)) = Some (streak_or_0 u + 1) \<and>
           (if (streak_or_0 u + 1) mod 7 = 0
            then xp (fst (login_streak today u)) = xp u + 10 + 50 \<and>
                 snd (login_streak today u) = [DayStreak (streak_or_0 u + 1)]
            else xp (fst (login_streak today u)) = xp u + 10 \<and>
                 snd (login_streak today u) = []))
     \<and> (last_login u = Some today \<longrightarrow>
           streak (fst (login_streak today u)) = streak u \<and>
           xp (fst (login_streak today u)) = xp u \<and> snd (login_streak today u) = [])
     \<and> (last_login u \<noteq> Some (today - 1) \<and> last_login u \<noteq> Some today \<longrightarrow>
           streak (fst (login_streak today u)) = Some 1 \<and>
           xp (fst (login_streak today u)) = xp u \<and> snd (login_streak today u) = [])
     \<and> (last_login u = None \<longrightarrow> streak (fst (login_streak today u)) = Some 1)
     \<and> (\<forall>d. last_login u = Some d \<and> today < d \<longrightarrow>
           streak (fst (login_streak today u)) = Some 1 \<and>
           last_login (fst (login_streak today u)) = Some today)"
    by (simp add: login_streak_def Let_def streak_or_0_def award_xp_def split: prod.splits)
  have known: "users (oauth2_callback s mail name acct today) =
         map (\<lambda>v. if u_id v = u_id u then fst (login_streak today v) else v) (users s) \<and>
       map n_title (notifications (oauth2_callback s mail name acct today)) =
         map n_title (notifications s) @ snd (login_streak today u)"
    if "find (\<lambda>u. email u = mail) (users s) = Some u"
    using that
    by (simp add: oauth2_callback_def Let_def users_foldl_notify users_simps
        titles_foldl_notify upd_user_def)
  from cases known show ?thesis by blast
qed

theorem login_streak_transition_witness:
  "last_login asha = Some (101 - 1)
   \<and> streak (fst (login_streak 101 asha)) = Some (streak_or_0 asha + 1)
   \<and> xp (fst (login_streak 101 asha)) = xp asha + 10
   \<and> last_login (fst (login_streak 101 asha)) = Some 101
   \<and> last_login (asha\<lparr>streak := Some 6\<rparr>) = Some (101 - 1)
   \<and> xp (fst (login_streak 101 (asha\<lparr>streak := Some 6\<rparr>))) = xp (asha\<lparr>streak := Some 6\<rparr>) + 10 + 50
   \<and> snd (login_streak 101 (asha\<lparr>streak := Some 6\<rparr>)) = [DayStreak 7]
   \<and> last_login asha = Some 100
   \<and> streak (fst (login_streak 100 asha)) = streak asha
   \<and> xp (fst (login_streak 100 asha)) = xp asha
   \<and> last_login asha \<noteq> Some (103 - 1) \<and> last_login asha \<noteq> Some 103
   \<and> streak (fst (login_streak 103 asha)) = Some 1
   \<and> last_login (asha\<lparr>last_login := None\<rparr>) = None
   \<and> streak (fst (login_streak 101 (asha\<lparr>last_login := None\<rparr>))) = Some 1
   \<and> 95 < (100 :: int)
   \<and> streak (fst (login_streak 95 asha)) = Some 1
   \<and> last_login (fst (login_streak 95 asha)) = Some 95
   \<and> find (\<lambda>u. email u = ''a@lg.io'') (users two_users) = Some asha
   \<and> users (oauth2_callback two_users ''a@lg.io'' ''asha'' ''LG0009'' 101) =
       map (\<lambda>v. if u_id v = u_id asha then fst (login_streak 101 v) else v) (users two_users)"
proof -
  have a: "last_login asha = Some 100" by code_simp
  have b: "streak_or_0 asha = 0" by code_simp
  have c: "last_login (asha\<lparr>streak := Some 6\<rparr>) = Some 100" by code_simp
  have d: "streak_or_0 (asha\<lparr>streak := Some 6\<rparr>) = 6" by code_simp
  have e: "find (\<lambda>u. email u = ''a@lg.io'') (users two_users) = Some asha" by code_simp
  have f: "last_login (asha\<lparr>last_login := None\<rparr>) = None" by simp
  note t = login_streak_transition
  from t [of 101 asha] a b
  have 1: "streak (fst (login_streak 101 asha)) = Some (streak_or_0 asha + 1)"
    "xp (fst (login_streak 101 asha)) = xp asha + 10"
    "last_login (fst (login_streak 101 asha)) = Some 101"
    by simp_all
  from t [of 101 "asha\<lparr>streak := Some 6\<rparr>"] c d
  have 2: "xp (fst (login_streak 101 (asha\<lparr>streak := Some 6\<rparr>))) =
             xp (asha\<lparr>streak := Some 6\<rparr>) + 10 + 50"
    "snd (login_streak 101 (asha\<lparr>streak := Some 6\<rparr>)) = [DayStreak 7]"
    by simp_all
  from t [of 100 asha] a
  have 3: "streak (fst (login_streak 100 asha)) = streak asha"
    "xp (fst (login_streak 100 asha)) = xp asha"
    by simp_all
  from t [of 103 asha] a
  have 4: "streak (fst (login_streak 103 asha)) = Some 1"
    by simp
  from t [of 95 asha] a
  have 5: "streak (fst (login_streak 95 asha)) = Some 1"
    "last_login (fst (login_streak 95 asha)) = Some 95"
    by simp_all
  from t [of 101 asha "''a@lg.io''" two_users "''asha''" "''LG0009''"] e
  have 6: "users (oauth2_callback two_users ''a@lg.io'' ''asha'' ''LG0009'' 101) =
       map (\<lambda>v. if u_id v = u_id asha then fst (login_streak 101 v) else v) (users two_users)"
    by blast
  from t [of 101 "asha\<lparr>last_login := None\<rparr>"] f
  have 7: "streak (fst (login_streak 101 (asha\<lparr>last_login := None\<rparr>))) = Some 1"
    by blast
  from a c e f 1 2 3 4 5 6 7 show ?thesis by simp
qed

subsection \<open>Experience and tier\<close>

text \<open>
  C8. The experience of an account never decreases over any sequence of requests (no
  request removes an account), every stored tier is the step function of the stored
  experience after every request and after every \<^verbatim>\<open>award_xp\<close>, and the step function
  has its break points at 200, 800, 2000 and 5000: 199 is bronze, 200 and 799 are silver,
  800 is gold.
\<close>

theorem xp_monotone_and_tier_step_function:
  assumes "tier_ok s" and "get_user s v = Some u"
  shows "(\<exists>u'. get_user (run s ops) v = Some u' \<and> xp u \<le> xp u' \<and> tier u' = spec_tier (xp u'))
       \<and> tier_ok (run s ops)
       \<and> tier (award_xp points u) = spec_tier (xp (award_xp points u))
       \<and> xp u \<le> xp (award_xp (int n) u)
       \<and> spec_tier 199 = ''bronze'' \<and> spec_tier 200 = ''silver''
       \<and> spec_tier 799 = ''silver'' \<and> spec_tier 800 = ''gold''"
proof -
  have ok: "tier_ok (run s ops)" using assms(1) by (rule run_tier_ok)
  obtain u' where u': "get_user (run s ops) v = Some u'" "xp u \<le> xp u'"
    using run_xp [OF assms(2)] by auto
  have "tier u' = spec_tier (xp u')"
    using ok get_user_mem [OF u'(1)] by (simp add: tier_ok_def)
  with u' ok show ?thesis by (simp add: spec_tier_def)
qed

theorem xp_monotone_and_tier_step_function_witness:
  "tier_ok two_users
   \<and> get_user two_users 1 = Some (award_xp 100 (new_user 1 ''a@lg.io'' ''asha'' ''LG0001'' 100))
   \<and> (\<exists>u'. get_user (run two_users [SavingsCreate 1 ''trip'' (Some 50) [] [],
                                     SavingsDeposit 1 1 (Some 50) ''TXN1'',
                                     DeleteAccount 1]) 1 = Some u'
           \<and> 100 \<le> xp u' \<and> tier u' = spec_tier (xp u'))"
proof -
  have a: "tier_ok two_users" by code_simp
  have b: "get_user two_users 1 =
           Some (award_xp 100 (new_user 1 ''a@lg.io'' ''asha'' ''LG0001'' 100))"
    by code_simp
  have d: "xp (award_xp 100 (new_user 1 ''a@lg.io'' ''asha'' ''LG0001'' 100)) = 100"
    by (simp add: new_user_def)
  from xp_monotone_and_tier_step_function [OF a b,
      where ops = "[SavingsCreate 1 ''trip'' (Some 50) [] [],
                    SavingsDeposit 1 1 (Some 50) ''TXN1'', DeleteAccount 1]"
        and points = 0 and n = 0]
  obtain u'
    where "get_user (run two_users [SavingsCreate 1 ''trip'' (Some 50) [] [],
                                    SavingsDeposit 1 1 (Some 50) ''TXN1'',
                                    DeleteAccount 1]) 1 = Some u'"
      and "xp (award_xp 100 (new_user 1 ''a@lg.io'' ''asha'' ''LG0001'' 100)) \<le> xp u'"
      and "tier u' = spec_tier (xp u')"
    by blast
  with a b d show ?thesis by (intro conjI exI [of _ u']) simp_all
qed

subsection \<open>Split bills\<close>

text \<open>
  C9. \<^verbatim>\<open>api_split_create\<close> gives the creator a paid row that owes 0, and stores each
  member's amount as the request gives it, without a check: a member amount of -50 makes
  a row that owes -50.
\<close>

theorem split_member_negative_amount_owed:
  "step two_users (CreateSplitBill 1 ''dinner'' (Some 100) [(''b@lg.io'', - 50)] []) =
     Inr (run two_users [CreateSplitBill 1 ''dinner'' (Some 100) [(''b@lg.io'', - 50)] []])
   \<and> map (\<lambda>m. (m_user_id m, m_amount_owed m, m_paid m))
        (split_bill_members
           (run two_users [CreateSplitBill 1 ''dinner'' (Some 100) [(''b@lg.io'', - 50)] []])) =
       [(1, 0, True), (2, - 50, False)]"
  by code_simp

end
